theory Spec2Isabelle
  imports Main "HOL-Library.Word" "HOL-Library.Signed_Division"
begin

section \<open>Machine types, the log and the environment\<close>

type_synonym u8 = "8 word"
type_synonym u16 = "16 word"
type_synonym u32 = "32 word"

text \<open>
  The levels of \<^verbatim>\<open>dprintf\<close> that the two files use; \<^verbatim>\<open>printf\<close> goes to
  standard output and \<^verbatim>\<open>dperror\<close> reports the failed call. A line of the log is the
  level and the format string as the source writes it (arguments are not rendered).
\<close>

datatype level = ALWAYS | CRITICAL | INFO | SPEW | STDOUT | PERROR

type_synonym logline = "level \<times> string"

definition nl :: string where
  "nl = [CHR 0x0A]"

text \<open>
  What C leaves undefined and the program does not guard: an index outside an array
  (or a string without its terminator), a division by zero, a conversion that does not
  fit an \<^verbatim>\<open>int\<close>. A function that can reach one returns \<open>Inl\<close> of it.
\<close>

datatype fault = OutOfBounds | DivideByZero | IntOverflow

subsection \<open>The image table\<close>

text \<open>
  Modelled from the spec: \<^verbatim>\<open>struct OSII\<close> and \<^verbatim>\<open>struct OSIP_header\<close> are declared in
  \<^verbatim>\<open>update_osip.h\<close>, which is not among the sources. The records hold the members
  that \<^verbatim>\<open>update_osip.c\<close> names (the image descriptor: major/minor OS revision, load
  address, entry point, image size, attribute, logical start block; the table: its
  signature, the count of images and \<^verbatim>\<open>OSII_TOTAL\<close> descriptors). The signature is a
  32-bit value; the other members have the widths of this table format, in which
  revisions are 16-bit, block numbers, addresses and sizes are 32-bit, and the
  attribute and the count are bytes. Members that the code does not name are left out.
\<close>

record OSII =
  os_rev_minor :: u16
  os_rev_major :: u16
  logical_start_block :: u32
  ddr_load_address :: u32
  entery_point :: u32
  size_of_os_image :: u32
  attribute :: u8

record OSIP_header =
  sig :: u32
  num_images :: u8
  desc :: "OSII list"

definition BACKUP_LOC :: nat where "BACKUP_LOC = 0xE0"
definition OSIP_SIG :: u32 where "OSIP_SIG = 0x24534f24"
definition OSII_TOTAL :: nat where "OSII_TOTAL = 7"
definition DUMP_OSIP :: int where "DUMP_OSIP = 1"
definition NOT_DUMP :: int where "NOT_DUMP = 0"
definition R_BCK :: int where "R_BCK = 1"
definition R_START :: int where "R_START = 0"
definition MMC_PAGES_PER_BLOCK :: int where "MMC_PAGES_PER_BLOCK = 1"
definition KBYTES :: int where "KBYTES = 1024"
definition STITCHED_IMAGE_PAGE_SIZE :: u32 where "STITCHED_IMAGE_PAGE_SIZE = 512"
definition STITCHED_IMAGE_BLOCK_SIZE :: u32 where "STITCHED_IMAGE_BLOCK_SIZE = 512"

definition zero_OSII :: OSII where
  "zero_OSII = \<lparr>os_rev_minor = 0, os_rev_major = 0, logical_start_block = 0,
     ddr_load_address = 0, entery_point = 0, size_of_os_image = 0, attribute = 0\<rparr>"

definition zero_OSIP :: OSIP_header where
  "zero_OSIP = \<lparr>sig = 0, num_images = 0, desc = replicate OSII_TOTAL zero_OSII\<rparr>"

subsection \<open>The world the program runs in\<close>

text \<open>
  A request the program makes to change the block device \<^verbatim>\<open>MMC_DEV_POS\<close>: the table
  handed to \<^verbatim>\<open>write_OSIP\<close>, or the raw write of a payload (the offset given to
  \<^verbatim>\<open>lseek\<close>, the bytes given to \<^verbatim>\<open>write\<close>), each with whether it was carried out.
\<close>

datatype mmc_req =
    Req_write_OSIP OSIP_header bool
  | Req_write_blob u32 "u8 list" bool

text \<open>
  The state the functions read and change. \<open>faults\<close> is the schedule of the calls that
  can fail (\<^verbatim>\<open>open\<close>, \<^verbatim>\<open>read\<close>, \<^verbatim>\<open>write\<close> and the calls of collaborators): each such
  call takes the next flag, and fails when it is set; with the schedule used up, calls
  succeed. \<open>erase_size\<close> is the content of the attribute \<^verbatim>\<open>MMC_PAGE_SIZE\<close>. \<open>mmc_osip\<close>
  and \<open>mmc_bck\<close> are the tables at offset 0 and at \<^verbatim>\<open>BACKUP_LOC\<close> of the device, as a
  read of \<^verbatim>\<open>sizeof(struct OSIP_header)\<close> bytes delivers them and as \<^verbatim>\<open>write_OSIP\<close>
  leaves them. \<open>mmc_log\<close> lists the requests to change the device, oldest first; a raw
  write of a payload is kept there only: on which bytes of the device it lands depends
  on \<^verbatim>\<open>lseek\<close>, whose result the code does not look at, and no property below speaks
  of a payload written over a table. \<open>autoboot_enabled\<close> is the static flag of
  \<^verbatim>\<open>droidboot.c\<close>.
\<close>

record world =
  autoboot_enabled :: int
  console :: "logline list"
  faults :: "bool list"
  erase_size :: string
  mmc_osip :: OSIP_header
  mmc_bck :: OSIP_header
  mmc_log :: "mmc_req list"

definition dprintf :: "level \<Rightarrow> string \<Rightarrow> world \<Rightarrow> world" where
  "dprintf lvl fmt w = w\<lparr>console := console w @ [(lvl, fmt)]\<rparr>"

definition dperror :: "string \<Rightarrow> world \<Rightarrow> world" where
  "dperror what w = dprintf PERROR what w"

definition io_fails :: "world \<Rightarrow> bool \<times> world" where
  "io_fails w = (case faults w of [] \<Rightarrow> (False, w) | f # fs \<Rightarrow> (f, w\<lparr>faults := fs\<rparr>))"

section \<open>update\_osip.c\<close>

subsection \<open>The page size of the device\<close>

text \<open>
  \<^verbatim>\<open>sscanf(buf, "%d", &n)\<close> of the C library: white space, an optional sign, decimal
  digits. \<open>None\<close> when no digit is there (the call does not return 1).
\<close>

definition isspace :: "char \<Rightarrow> bool" where
  "isspace c = (c \<in> set [CHR 0x20, CHR 0x09, CHR 0x0A, CHR 0x0B, CHR 0x0C, CHR 0x0D])"

definition isdigit :: "char \<Rightarrow> bool" where
  "isdigit c = (c \<in> set ''0123456789'')"

definition digits_val :: "string \<Rightarrow> nat" where
  "digits_val ds = foldl (\<lambda>a c. 10 * a + (of_char c - 48)) 0 ds"

definition sscanf_d :: "string \<Rightarrow> int option" where
  "sscanf_d buf =
     (let t = dropWhile isspace buf;
          neg = (t \<noteq> [] \<and> hd t = CHR ''-'');
          u = (if t \<noteq> [] \<and> (hd t = CHR ''-'' \<or> hd t = CHR ''+'') then tl t else t);
          ds = takeWhile isdigit u
      in if ds = [] then None
         else Some (if neg then - int (digits_val ds) else int (digits_val ds)))"

text \<open>
  \<^verbatim>\<open>get_page_size\<close>: opens the attribute \<^verbatim>\<open>MMC_PAGE_SIZE\<close>, reads at most 16 bytes into a
  zeroed buffer of 16, converts and divides by \<^verbatim>\<open>KBYTES\<close> (C's division, towards zero).
  With 16 bytes read the buffer has lost its terminator.
\<close>

definition get_page_size :: "world \<Rightarrow> (fault + int) \<times> world" where
  "get_page_size w =
     (let (open_failed, w1) = io_fails w in
      if open_failed then (Inr (- 1), dperror ''open'' w1)
      else
        let (read_failed, w2) = io_fails w1 in
        if read_failed then (Inr (- 1), dperror ''read'' w2)
        else
          let buf = take 16 (erase_size w2) in
          if length buf = 16 then (Inl OutOfBounds, w2)
          else
            let w3 = dprintf INFO (''page size %s'' @ nl) w2 in
            (case sscanf_d buf of
               None \<Rightarrow> (Inr (- 1), dperror ''sscanf'' w3)
             | Some mmc_page_size \<Rightarrow>
                 if mmc_page_size < - (2 ^ 31) \<or> 2 ^ 31 \<le> mmc_page_size
                 then (Inl IntOverflow, w3)
                 else (Inr (mmc_page_size sdiv KBYTES), w3)))"

definition get_block_size :: "world \<Rightarrow> (fault + int) \<times> world" where
  "get_block_size w =
     (case get_page_size w of
        (Inl f, w') \<Rightarrow> (Inl f, w')
      | (Inr mmc_page_size, w') \<Rightarrow> (Inr (mmc_page_size * MMC_PAGES_PER_BLOCK), w'))"

subsection \<open>Reading the table\<close>

text \<open>
  Modelled from the spec: \<^verbatim>\<open>dump_osip_header\<close> is not among the sources; it prints the
  table it is given and changes nothing else.
\<close>

definition dump_osip_header :: "OSIP_header \<Rightarrow> world \<Rightarrow> world" where
  "dump_osip_header osip w = dprintf STDOUT ''dump_osip_header'' w"

text \<open>
  \<^verbatim>\<open>read_OSIP_loc(osip, location, dump)\<close>: the result is the returned \<^verbatim>\<open>int\<close> and the
  table left in \<^verbatim>\<open>*osip\<close>, which is zeroed first.
\<close>

definition read_OSIP_loc :: "int \<Rightarrow> int \<Rightarrow> world \<Rightarrow> (int \<times> OSIP_header) \<times> world" where
  "read_OSIP_loc location dump w =
     (let w0 = (if location = 0
                then dprintf INFO (''**************into read_OSIP*********************'' @ nl) w
                else dprintf STDOUT
                       (''==============into read_OSIP from backup location===='' @ nl) w);
          (open_failed, w1) = io_fails w0 in
      if open_failed then ((- 1, zero_OSIP), w1)
      else
        let (read_failed, w2) = io_fails w1 in
        if read_failed
        then ((- 1, zero_OSIP), dprintf INFO (''read of osip failed'' @ nl) w2)
        else
          let osip = (if location \<noteq> 0 then mmc_bck w2 else mmc_osip w2);
              w3 = (if sig osip \<noteq> OSIP_SIG
                    then dprintf STDOUT
                           (''Invalid OSIP header detected!'' @ nl @ ''++++++++++++++++++!'' @ nl) w2
                    else w2);
              w4 = (if dump \<noteq> 0 \<and> sig osip = OSIP_SIG
                    then
                      let w' = dump_osip_header osip w3 in
                      if location \<noteq> 0
                      then dprintf INFO (''read of osip  from BACKUP_LOC works'' @ nl) w'
                      else dprintf INFO (''read of osip works'' @ nl) w'
                    else w3)
          in ((1, osip), w4))"

subsection \<open>Writing a stitched image\<close>

text \<open>
  Modelled from the spec: \<^verbatim>\<open>crack_stitched_image\<close> is not among the sources. It
  extracts the descriptor and the payload from a combined update blob: the descriptor
  lies in the first 512 bytes, the remaining bytes are the payload; it fails on a
  buffer it cannot use. A buffer is \<open>None\<close> when it cannot be used, and otherwise the
  descriptor it holds and the bytes after its first 512.
\<close>

record stitched_image =
  st_osii :: OSII
  st_blob :: "u8 list"

definition crack_stitched_image :: "stitched_image option \<Rightarrow> (OSII \<times> u8 list) option" where
  "crack_stitched_image data =
     (case data of None \<Rightarrow> None | Some d \<Rightarrow> Some (st_osii d, st_blob d))"

text \<open>
  Modelled from the spec: \<^verbatim>\<open>write_OSIP\<close> is not among the sources. It persists the
  table to the primary location: it opens the device, writes the table at offset 0 and
  closes the device; a failure of the device is returned to the caller as a negative
  value and the process goes on.
\<close>

definition write_OSIP :: "OSIP_header \<Rightarrow> world \<Rightarrow> int \<times> world" where
  "write_OSIP osip w =
     (let (open_failed, w1) = io_fails w in
      if open_failed
      then (- 1, w1\<lparr>mmc_log := mmc_log w1 @ [Req_write_OSIP osip False]\<rparr>)
      else
        let (write_failed, w2) = io_fails w1 in
        if write_failed
        then (- 1, w2\<lparr>mmc_log := mmc_log w2 @ [Req_write_OSIP osip False]\<rparr>)
        else (0, w2\<lparr>mmc_osip := osip,
                       mmc_log := mmc_log w2 @ [Req_write_OSIP osip True]\<rparr>))"

text \<open>
  Lines 131 to 137 of \<^verbatim>\<open>write_stitch_image\<close>, on the table just read and the descriptor
  of the blob: the descriptor takes the start block that the table records for the
  slot, and its size is recomputed in 32-bit unsigned arithmetic, to which \<^verbatim>\<open>page_size\<close>
  is converted; the count of the table is set to 1 and the descriptor is copied into
  the slot.
\<close>

definition stitch_OSII :: "OSIP_header \<Rightarrow> OSII \<Rightarrow> int \<Rightarrow> int \<Rightarrow> OSII" where
  "stitch_OSII osip osii update_number page_size =
     osii\<lparr>logical_start_block := logical_start_block (desc osip ! nat update_number),
          size_of_os_image :=
            (size_of_os_image osii * STITCHED_IMAGE_PAGE_SIZE) div word_of_int page_size + 1\<rparr>"

definition stitch_OSIP :: "OSIP_header \<Rightarrow> OSII \<Rightarrow> int \<Rightarrow> OSIP_header" where
  "stitch_OSIP osip osii update_number =
     osip\<lparr>num_images := 1, desc := (desc osip)[nat update_number := osii]\<rparr>"

text \<open>
  Lines 131 to 160 of \<^verbatim>\<open>write_stitch_image\<close>, from the table just read to the
  return: the table is changed as above and handed to \<^verbatim>\<open>write_OSIP\<close>, whose result
  the code does not look at, and the payload is written at the offset
  \<^verbatim>\<open>logical_start_block * block_size\<close>. \<^verbatim>\<open>update_number\<close> is not checked against the
  array and \<^verbatim>\<open>page_size\<close> is not checked before the division. \<^verbatim>\<open>write\<close> returns the
  count on success and -1 on failure, and is compared with the count as an \<^verbatim>\<open>int\<close>;
  the results of \<^verbatim>\<open>lseek\<close>, \<^verbatim>\<open>fsync\<close> and \<^verbatim>\<open>close\<close> are not looked at.
\<close>

definition store_stitch_image ::
  "OSIP_header \<Rightarrow> OSII \<Rightarrow> u8 list \<Rightarrow> u32 \<Rightarrow> int \<Rightarrow> int \<Rightarrow> int \<Rightarrow> world
     \<Rightarrow> (fault + int) \<times> world" where
  "store_stitch_image osip osii blob sz update_number block_size page_size w =
     (if update_number < 0 \<or> int OSII_TOTAL \<le> update_number then (Inl OutOfBounds, w)
      else if page_size = 0 then (Inl DivideByZero, w)
      else
        let osii' = stitch_OSII osip osii update_number page_size;
            osip' = stitch_OSIP osip osii' update_number;
            w1 = dprintf SPEW
                   (''os_rev_major=0x%x,os_rev_minor=0x%x,ddr_load_address=0x%x'' @ nl) w;
            w2 = dprintf SPEW
                   (''entry_point=0x%x,sizeof_osimage=0x%x,attribute=0x%x'' @ nl) w1;
            (written, w3) = write_OSIP osip' w2;
            (open_failed, w4) = io_fails w3
        in
          if open_failed then (Inr (- 1), dprintf CRITICAL (''fail open %s'' @ nl) w4)
          else
            let offset = logical_start_block osii' * word_of_int block_size;
                count = sz - STITCHED_IMAGE_BLOCK_SIZE;
                (write_failed, w5) = io_fails w4;
                ret = (if write_failed then - 1 else sint count);
                w6 = w5\<lparr>mmc_log := mmc_log w5 @
                       [Req_write_blob offset (take (unat count) blob) (\<not> write_failed)]\<rparr>
            in
              if ret < sint count
              then (Inr (- 1), dprintf INFO (''fail write of blob'' @ nl) w6)
              else (Inr 0, w6))"

text \<open>
  \<^verbatim>\<open>write_stitch_image(data, size, update_number)\<close>; \<^verbatim>\<open>size\<close>, here \<open>sz\<close>, is a \<^verbatim>\<open>size_t\<close> of
  the 32-bit target.
\<close>

definition write_stitch_image ::
  "stitched_image option \<Rightarrow> u32 \<Rightarrow> int \<Rightarrow> world \<Rightarrow> (fault + int) \<times> world" where
  "write_stitch_image data sz update_number w =
     (case get_block_size w of
        (Inl f, w1) \<Rightarrow> (Inl f, w1)
      | (Inr block_size, w1) \<Rightarrow>
     (case get_page_size w1 of
        (Inl f, w2) \<Rightarrow> (Inl f, w2)
      | (Inr page_size, w2) \<Rightarrow>
          let w3 = dprintf INFO (''now into write_stitch_image'' @ nl) w2 in
          if block_size < 0
          then (Inr (- 1), dprintf CRITICAL (''block size wrong'' @ nl) w3)
          else
            (case crack_stitched_image data of
               None \<Rightarrow> (Inr (- 1), dprintf CRITICAL (''crack_stitched_image fails'' @ nl) w3)
             | Some (osii, blob) \<Rightarrow>
                 if size_of_os_image osii * STITCHED_IMAGE_PAGE_SIZE
                      \<noteq> sz - STITCHED_IMAGE_BLOCK_SIZE
                 then (Inr (- 1),
                       dprintf CRITICAL (''data format is not correct! '' @ nl) w3)
                 else
                   (case read_OSIP_loc R_START NOT_DUMP w3 of
                      ((r, osip), w4) \<Rightarrow>
                        if r < 0
                        then (Inr (- 1), dprintf CRITICAL (''read_OSIP fails'' @ nl) w4)
                        else store_stitch_image osip osii blob sz update_number
                               block_size page_size w4))))"

section \<open>droidboot.c\<close>

subsection \<open>The autoboot flag and the default kernel\<close>

definition disable_autoboot :: "world \<Rightarrow> world" where
  "disable_autoboot w =
     (if autoboot_enabled w \<noteq> 0
      then dprintf INFO (''Autoboot disabled.'' @ nl) (w\<lparr>autoboot_enabled := 0\<rparr>)
      else w)"

text \<open>
  Modelled from the spec: \<^verbatim>\<open>die\<close>, \<^verbatim>\<open>find_part\<close>, \<^verbatim>\<open>mount_partition\<close> and
  \<^verbatim>\<open>kexec_linux\<close> are not among the sources. \<^verbatim>\<open>die()\<close> is the process-abort primitive;
  mounting the boot partition can fail, and then yields no mount point; the kernel
  handoff does not return when it succeeds. The process ends inside the functions of
  \<^verbatim>\<open>droidboot.c\<close> in \<^verbatim>\<open>die()\<close>, in the handoff or in \<^verbatim>\<open>exit\<close>. Whether a call of a
  collaborator (or \<^verbatim>\<open>asprintf\<close>, \<^verbatim>\<open>pthread_create\<close>, \<^verbatim>\<open>malloc\<close>) fails is read from
  \<open>faults\<close>.
\<close>

datatype ending = Died | Handed_off | Exited int

text \<open>\<^verbatim>\<open>start_default_kernel\<close>: \<open>None\<close> when it returns to its caller.\<close>

definition start_default_kernel :: "world \<Rightarrow> ending option \<times> world" where
  "start_default_kernel w =
     (let (mount_failed, w1) = io_fails w in
      if mount_failed
      then (None, dprintf CRITICAL (''Can't mount boot partition!'' @ nl) w1)
      else
        let (kernel_path_failed, w2) = io_fails w1 in
        if kernel_path_failed then (Some Died, dperror ''asprintf'' w2)
        else
          let (ramdisk_path_failed, w3) = io_fails w2 in
          if ramdisk_path_failed then (Some Died, dperror ''asprintf'' w3)
          else
            let (cmdline_path_failed, w4) = io_fails w3 in
            if cmdline_path_failed then (Some Died, dperror ''asprintf'' w4)
            else
              let (kexec_failed, w5) = io_fails w4 in
              if kexec_failed then (Some Died, w5) else (Some Handed_off, w5))"

subsection \<open>The countdown\<close>

text \<open>
  \<^verbatim>\<open>autoboot_thread\<close> reads the flag once on entry and once after each \<^verbatim>\<open>sleep(1)\<close>;
  other threads run in between. \<open>cancels i\<close> tells whether another thread calls
  \<^verbatim>\<open>disable_autoboot\<close> before the read number \<open>i\<close> (number 0 is the one on entry) and
  after the read before it.
\<close>

definition others :: "(nat \<Rightarrow> bool) \<Rightarrow> nat \<Rightarrow> world \<Rightarrow> world" where
  "others cancels i w = (if cancels i then disable_autoboot w else w)"

text \<open>
  How the thread ends: at one of its two \<^verbatim>\<open>return NULL\<close> before the call of
  \<^verbatim>\<open>start_default_kernel\<close>, or having called it.
\<close>

datatype autoboot_end = Returned | Started_kernel "ending option"

text \<open>The \<^verbatim>\<open>for\<close> loop with \<open>sleep_time\<close> seconds left, and the call after it.\<close>

fun autoboot_loop :: "(nat \<Rightarrow> bool) \<Rightarrow> nat \<Rightarrow> nat \<Rightarrow> world \<Rightarrow> autoboot_end \<times> world" where
  "autoboot_loop cancels i 0 w =
     (case start_default_kernel w of (e, w') \<Rightarrow> (Started_kernel e, w'))"
| "autoboot_loop cancels i (Suc sleep_time) w =
     (let w1 = dprintf ALWAYS (''Automatic boot in %d seconds.'' @ nl) w;
          w2 = others cancels i w1
      in if autoboot_enabled w2 = 0 then (Returned, w2)
         else autoboot_loop cancels (Suc i) sleep_time w2)"

definition autoboot_thread :: "(nat \<Rightarrow> bool) \<Rightarrow> nat \<Rightarrow> world \<Rightarrow> autoboot_end \<times> world" where
  "autoboot_thread cancels sleep_time w =
     (let w0 = others cancels 0 w in
      if autoboot_enabled w0 = 0 then (Returned, w0)
      else autoboot_loop cancels 1 sleep_time w0)"

subsection \<open>The input listener\<close>

text \<open>
  \<^verbatim>\<open>struct input_event\<close> and the constants are those of \<^verbatim>\<open>linux/input.h\<close>.
\<close>

record input_event =
  ev_type :: u16
  ev_code :: u16
  ev_value :: u32

definition EV_KEY :: u16 where "EV_KEY = 0x01"
definition EV_REL :: u16 where "EV_REL = 0x02"
definition EV_ABS :: u16 where "EV_ABS = 0x03"
definition KEY_DOT :: u16 where "KEY_DOT = 52"

text \<open>
  An entry of \<^verbatim>\<open>/dev/input\<close> as the enumeration meets it: its name, what \<^verbatim>\<open>stat\<close>
  says of it (failure, or whether it is a character device), and what \<^verbatim>\<open>open\<close>
  returns for it (a negative value on failure).
\<close>

datatype stat_result = Stat_fails | Stat_mode bool

record dirent =
  d_name :: string
  d_stat :: stat_result
  d_open :: int

definition open_event_node :: "dirent \<Rightarrow> int set \<times> int \<Rightarrow> world \<Rightarrow> (int set \<times> int) \<times> world" where
  "open_event_node e acc w =
     (case acc of (rfds, max_fd) \<Rightarrow>
        let fd = d_open e in
        if fd < 0
        then ((rfds, max_fd), dprintf INFO (''Unable to open %s. fd=%d, errno=%d'' @ nl) w)
        else
          let w1 = dprintf INFO (''Opened %s. fd=%d'' @ nl) w in
          ((insert fd rfds, if fd > max_fd then fd else max_fd), w1))"

text \<open>The first \<^verbatim>\<open>while (1)\<close> of \<^verbatim>\<open>input_listener_thread\<close>, over the entries that
  \<^verbatim>\<open>readdir\<close> returns.\<close>

fun read_input_dir ::
  "dirent list \<Rightarrow> int set \<times> int \<Rightarrow> world \<Rightarrow> (ending + int set \<times> int) \<times> world" where
  "read_input_dir [] acc w = (Inr acc, w)"
| "read_input_dir (e # es) acc w =
     (if d_name e = ''.'' \<or> d_name e = ''..'' then read_input_dir es acc w
      else
        (case d_stat e of
           Stat_fails \<Rightarrow> (Inl Died, dperror ''stat'' w)
         | Stat_mode is_chr \<Rightarrow>
             if \<not> is_chr then read_input_dir es acc w
             else
               (case open_event_node e acc w of
                  (acc', w') \<Rightarrow> read_input_dir es acc' w')))"

text \<open>
  What the loop over the descriptors meets at a descriptor after \<^verbatim>\<open>select\<close>: it is
  not set, or \<^verbatim>\<open>read\<close> does not return a whole event, or an event is read.
\<close>

datatype fd_state = Not_set | Short_read | Event input_event

text \<open>The \<^verbatim>\<open>switch\<close> on the event: \<open>True\<close> is \<^verbatim>\<open>goto out\<close>, \<open>False\<close> is
  \<^verbatim>\<open>continue\<close>.\<close>

definition handle_event :: "input_event \<Rightarrow> world \<Rightarrow> bool \<times> world" where
  "handle_event event w =
     (if ev_type event = EV_KEY
      then (if ev_code event = KEY_DOT then (False, w) else (True, disable_autoboot w))
      else if ev_type event = EV_ABS \<or> ev_type event = EV_REL
      then (True, disable_autoboot w)
      else (False, w))"

text \<open>The \<^verbatim>\<open>for\<close> loop over the descriptors \<open>0..max_fd\<close>.\<close>

fun scan_fds :: "fd_state list \<Rightarrow> world \<Rightarrow> bool \<times> world" where
  "scan_fds [] w = (False, w)"
| "scan_fds (Not_set # fds) w = scan_fds fds w"
| "scan_fds (Short_read # fds) w =
     scan_fds fds
       (dprintf INFO (''Unable to read event from fd=%d, deb=%d, errno=%d'' @ nl) w)"
| "scan_fds (Event event # fds) w =
     (let w1 = dprintf SPEW
                 (''read from fd=%d. Event type: %x, code: %x, value: %x'' @ nl) w
      in case handle_event event w1 of
           (True, w2) \<Rightarrow> (True, w2)
         | (False, w2) \<Rightarrow> scan_fds fds w2)"

text \<open>
  The second \<^verbatim>\<open>while (1)\<close>: each element of the list is one return of \<^verbatim>\<open>select\<close>,
  with the states of the descriptors from 0 upwards. With the list used up the thread
  stays blocked in \<^verbatim>\<open>select\<close> (\<open>False\<close>); \<open>True\<close> is \<^verbatim>\<open>goto out\<close>.
\<close>

fun select_loop :: "fd_state list list \<Rightarrow> int \<Rightarrow> world \<Rightarrow> bool \<times> world" where
  "select_loop [] max_fd w = (False, w)"
| "select_loop (fds # rounds) max_fd w =
     (let w1 = dprintf SPEW (''select returns %d (errno=%d)'' @ nl) w in
      case scan_fds (take (nat (max_fd + 1)) fds) w1 of
        (True, w2) \<Rightarrow> (True, w2)
      | (False, w2) \<Rightarrow> select_loop rounds max_fd w2)"

record input_env =
  inputdir :: "dirent list option"
  selects :: "fd_state list list"

datatype listener_end = Left | Blocked | Ended ending

definition input_listener_thread :: "input_env \<Rightarrow> world \<Rightarrow> listener_end \<times> world" where
  "input_listener_thread env w =
     (let w0 = dprintf SPEW (''begin input listener thread'' @ nl) w;
          out = dprintf SPEW (''exit input listener thread'' @ nl)
      in case inputdir env of
           None \<Rightarrow> (Left, out (dperror ''opendir'' w0))
         | Some entries \<Rightarrow>
             (case read_input_dir entries ({}, - 1) w0 of
                (Inl e, w1) \<Rightarrow> (Ended e, w1)
              | (Inr (rfds, max_fd), w1) \<Rightarrow>
                  if max_fd < 0
                  then (Left,
                        out (dprintf CRITICAL (''Unable to open any input device.'' @ nl) w1))
                  else
                    (case select_loop (selects env) max_fd w1 of
                       (True, w2) \<Rightarrow> (Left, out w2)
                     | (False, w2) \<Rightarrow> (Blocked, w2))))"

subsection \<open>The entry point\<close>


subsection \<open>The operations on the shared state\<close>




section \<open>What the properties observe\<close>

text \<open>The device as the functions of \<^verbatim>\<open>update_osip.c\<close> find it.\<close>

definition device_view :: "world \<Rightarrow> OSIP_header \<times> OSIP_header \<times> mmc_req list \<times> string" where
  "device_view w = (mmc_osip w, mmc_bck w, mmc_log w, erase_size w)"

text \<open>
  The number of times the log says that autoboot was disabled, and the step that the
  flag and this number may take: none, or the flag goes from set to 0 with one more line.
\<close>

definition disabled_lines :: "world \<Rightarrow> nat" where
  "disabled_lines w = count_list (console w) (INFO, ''Autoboot disabled.'' @ nl)"

definition flag_view :: "world \<Rightarrow> int \<times> nat" where
  "flag_view w = (autoboot_enabled w, disabled_lines w)"


section \<open>Sample inputs\<close>

text \<open>
  A device whose table area is blank, and one that holds a table with three images
  whose slots start at the blocks 100, 200, ..., 700. The attribute of the erase size
  reads \<^verbatim>\<open>"2048\n"\<close>, autoboot is enabled, and no call fails. In \<open>failing_world\<close> the
  eighth call that can fail does: in \<^verbatim>\<open>write_stitch_image\<close> that is the \<^verbatim>\<open>write\<close> of
  the table in \<^verbatim>\<open>write_OSIP\<close>, after two calls in each \<^verbatim>\<open>get_page_size\<close>, two in
  \<^verbatim>\<open>read_OSIP_loc\<close> and the \<^verbatim>\<open>open\<close> of \<^verbatim>\<open>write_OSIP\<close>.
\<close>

definition blank_world :: world where
  "blank_world = \<lparr>autoboot_enabled = 1, console = [], faults = [],
     erase_size = ''2048'' @ nl, mmc_osip = zero_OSIP, mmc_bck = zero_OSIP, mmc_log = []\<rparr>"

definition sample_OSIP :: OSIP_header where
  "sample_OSIP = \<lparr>sig = OSIP_SIG, num_images = 3,
     desc = map (\<lambda>i. zero_OSII\<lparr>logical_start_block := 100 * of_nat (Suc i)\<rparr>) [0..<7]\<rparr>"

definition sample_world :: world where
  "sample_world = blank_world\<lparr>mmc_osip := sample_OSIP\<rparr>"

definition failing_world :: world where
  "failing_world =
     sample_world\<lparr>faults := [False, False, False, False, False, False, False, True]\<rparr>"

text \<open>
  A stitched image that declares 100 pages, carries 100 * 512 bytes and names a start
  block of its own; and one of 512 bytes, with no payload, that declares 0x800000 pages.
\<close>

definition sample_image :: stitched_image where
  "sample_image =
     \<lparr>st_osii = zero_OSII\<lparr>logical_start_block := 9999, size_of_os_image := 100\<rparr>,
      st_blob = replicate 51200 0\<rparr>"

definition wrapped_image :: stitched_image where
  "wrapped_image = \<lparr>st_osii = zero_OSII\<lparr>size_of_os_image := 0x800000\<rparr>, st_blob = []\<rparr>"

text \<open>Entries of the input directory and events.\<close>

definition dot_entry :: dirent where
  "dot_entry = \<lparr>d_name = ''.'', d_stat = Stat_mode False, d_open = - 1\<rparr>"

definition lost_entry :: dirent where
  "lost_entry = \<lparr>d_name = ''event0'', d_stat = Stat_fails, d_open = 3\<rparr>"

definition busy_entry :: dirent where
  "busy_entry = \<lparr>d_name = ''event1'', d_stat = Stat_mode True, d_open = - 1\<rparr>"

definition key_event :: "u16 \<Rightarrow> input_event" where
  "key_event c = \<lparr>ev_type = EV_KEY, ev_code = c, ev_value = 1\<rparr>"

definition sync_event :: input_event where
  "sync_event = \<lparr>ev_type = 0, ev_code = 0, ev_value = 0\<rparr>"

section \<open>Properties of update\_osip.c\<close>

subsection \<open>The calls that can fail, and what they leave alone\<close>

lemma io_fails_frame:
  assumes "io_fails w = (f, w')"
  shows "autoboot_enabled w' = autoboot_enabled w" "console w' = console w"
    "erase_size w' = erase_size w" "mmc_osip w' = mmc_osip w" "mmc_bck w' = mmc_bck w"
    "mmc_log w' = mmc_log w"
  using assms by (auto simp: io_fails_def split: list.splits)

lemma two_calls_succeed:
  assumes "True \<notin> set (take 2 (faults w))"
  obtains w1 w2 where "io_fails w = (False, w1)" "io_fails w1 = (False, w2)"
    "faults w2 = drop 2 (faults w)"
proof (cases "faults w")
  case Nil
  then show ?thesis using that [of w w] by (simp add: io_fails_def)
next
  case (Cons a fs)
  note outer = this
  show ?thesis
  proof (cases fs)
    case Nil
    with outer assms show ?thesis
      using that [of "w\<lparr>faults := []\<rparr>" "w\<lparr>faults := []\<rparr>"] by (simp add: io_fails_def)
  next
    case (Cons b gs)
    with outer assms show ?thesis
      using that [of "w\<lparr>faults := b # gs\<rparr>" "w\<lparr>faults := gs\<rparr>"]
      by (simp add: io_fails_def numeral_2_eq_2)
  qed
qed

lemma device_view_dprintf [simp]: "device_view (dprintf lvl fmt w) = device_view w"
  by (simp add: device_view_def dprintf_def)

lemma device_view_dperror [simp]: "device_view (dperror what w) = device_view w"
  by (simp add: dperror_def)

lemma device_view_io_fails: "io_fails w = (f, w') \<Longrightarrow> device_view w' = device_view w"
  by (auto simp: io_fails_def device_view_def split: list.splits)

lemma device_view_get_page_size: "get_page_size w = (r, w') \<Longrightarrow> device_view w' = device_view w"
  by (auto simp: get_page_size_def Let_def
           split: prod.splits option.splits if_splits dest!: device_view_io_fails)

lemma device_view_get_block_size: "get_block_size w = (r, w') \<Longrightarrow> device_view w' = device_view w"
  by (auto simp: get_block_size_def split: prod.splits sum.splits dest!: device_view_get_page_size)


subsection \<open>The page size\<close>



lemma get_page_size_results:
  "fst (get_page_size w) \<in> range Inr \<union> {Inl OutOfBounds, Inl IntOverflow}"
  by (auto simp: get_page_size_def Let_def split: prod.splits option.splits if_splits)



subsection \<open>Reading a table whose signature is wrong\<close>


text \<open>
  C5. When the device can be opened and read, \<^verbatim>\<open>read_OSIP_loc\<close> at the primary
  location returns 1, its value of success, with the table as the device holds it, also
  when the signature of that table is not \<^verbatim>\<open>OSIP_SIG\<close>: then the only mark of the
  mismatch is the line "Invalid OSIP header detected!" on standard output.
\<close>

theorem read_OSIP_loc_invalid_sig:
  assumes "sig (mmc_osip w) \<noteq> OSIP_SIG" and "True \<notin> set (take 2 (faults w))"
  shows "fst (read_OSIP_loc R_START dump w) = (1, mmc_osip w) \<and>
         console (snd (read_OSIP_loc R_START dump w)) =
           console w @
             [(INFO, ''**************into read_OSIP*********************'' @ nl),
              (STDOUT, ''Invalid OSIP header detected!'' @ nl @ ''++++++++++++++++++!'' @ nl)]"
proof -
  let ?w0 = "dprintf INFO (''**************into read_OSIP*********************'' @ nl) w"
  have "True \<notin> set (take 2 (faults ?w0))" using assms(2) by (simp add: dprintf_def)
  then obtain w1 w2 where io: "io_fails ?w0 = (False, w1)" "io_fails w1 = (False, w2)"
    by (rule two_calls_succeed)
  have osip: "mmc_osip w2 = mmc_osip w" and con: "console w2 = console ?w0"
    using io_fails_frame [OF io(1)] io_fails_frame [OF io(2)] by (simp_all add: dprintf_def)
  show ?thesis
    using assms(1) io osip con
    by (simp add: read_OSIP_loc_def R_START_def Let_def dprintf_def)
qed

theorem read_OSIP_loc_invalid_sig_witness:
  "sig (mmc_osip blank_world) \<noteq> OSIP_SIG \<and>
   True \<notin> set (take 2 (faults blank_world)) \<and>
   fst (read_OSIP_loc R_START NOT_DUMP blank_world) = (1, zero_OSIP) \<and>
   console (snd (read_OSIP_loc R_START NOT_DUMP blank_world)) =
     [(INFO, ''**************into read_OSIP*********************'' @ nl),
      (STDOUT, ''Invalid OSIP header detected!'' @ nl @ ''++++++++++++++++++!'' @ nl)]"
  using read_OSIP_loc_invalid_sig [of blank_world NOT_DUMP]
  by (simp add: blank_world_def zero_OSIP_def OSIP_SIG_def)

subsection \<open>A call of write\_stitch\_image that returns 0\<close>






subsection \<open>Running the sample inputs\<close>

lemmas run_defs = write_stitch_image_def get_block_size_def get_page_size_def io_fails_def
  sscanf_d_def isspace_def isdigit_def digits_val_def nl_def dprintf_def dperror_def
  crack_stitched_image_def read_OSIP_loc_def store_stitch_image_def write_OSIP_def
  stitch_OSII_def stitch_OSIP_def zero_OSIP_def zero_OSII_def
  KBYTES_def MMC_PAGES_PER_BLOCK_def STITCHED_IMAGE_PAGE_SIZE_def STITCHED_IMAGE_BLOCK_SIZE_def
  R_START_def NOT_DUMP_def OSIP_SIG_def OSII_TOTAL_def
  blank_world_def sample_world_def sample_OSIP_def

lemma upt_7: "[0..<7] = [0, 1, 2, 3, 4, 5, 6]"
  by (simp add: upt_rec)



subsection \<open>The slots of the table\<close>




subsection \<open>The count of images\<close>



subsection \<open>The size of the image in pages of the device\<close>




subsection \<open>A length that does not match the declared pages\<close>

text \<open>
  In the arithmetic of the check, which is that of 32-bit unsigned values, a blob whose
  \<^verbatim>\<open>size - 512\<close> differs from \<^verbatim>\<open>size_of_os_image * 512\<close> is refused before the device is
  touched: the call returns -1 (or stops at what C leaves undefined in
  \<^verbatim>\<open>get_page_size\<close>), and the tables and the list of requests are as before.
\<close>

lemma write_stitch_image_rejects:
  assumes "size_of_os_image (st_osii d) * STITCHED_IMAGE_PAGE_SIZE \<noteq>
           sz - STITCHED_IMAGE_BLOCK_SIZE"
  shows "fst (write_stitch_image (Some d) sz k w) \<in>
           {Inr (- 1), Inl OutOfBounds, Inl IntOverflow} \<and>
         mmc_osip (snd (write_stitch_image (Some d) sz k w)) = mmc_osip w \<and>
         mmc_bck (snd (write_stitch_image (Some d) sz k w)) = mmc_bck w \<and>
         mmc_log (snd (write_stitch_image (Some d) sz k w)) = mmc_log w"
proof -
  obtain rb w1 where gb: "get_block_size w = (rb, w1)" by (cases "get_block_size w")
  obtain rp w2 where gp: "get_page_size w1 = (rp, w2)" by (cases "get_page_size w1")
  have v: "device_view w1 = device_view w" "device_view w2 = device_view w"
    using device_view_get_block_size [OF gb] device_view_get_page_size [OF gp] by simp_all
  have rb: "rb \<in> range Inr \<union> {Inl OutOfBounds, Inl IntOverflow}"
    using gb get_page_size_results [of w]
    by (auto simp: get_block_size_def split: prod.splits sum.splits)
  have rp: "rp \<in> range Inr \<union> {Inl OutOfBounds, Inl IntOverflow}"
    using gp get_page_size_results [of w1] by simp
  show ?thesis
  proof (cases rb)
    case (Inl f)
    with rb gb v show ?thesis
      by (auto simp: write_stitch_image_def device_view_def)
  next
    case (Inr bs)
    note b = this
    show ?thesis
    proof (cases rp)
      case (Inl f)
      with rp b gb gp v show ?thesis
        by (auto simp: write_stitch_image_def device_view_def)
    next
      case (Inr ps)
      have e: "mmc_osip w2 = mmc_osip w" "mmc_bck w2 = mmc_bck w" "mmc_log w2 = mmc_log w"
        using v by (simp_all add: device_view_def)
      have p: "mmc_osip (dprintf lvl fmt v) = mmc_osip v"
        "mmc_bck (dprintf lvl fmt v) = mmc_bck v"
        "mmc_log (dprintf lvl fmt v) = mmc_log v" for lvl fmt v
        by (simp_all add: dprintf_def)
      from Inr b gb gp assms show ?thesis
        by (simp add: write_stitch_image_def Let_def crack_stitched_image_def e p)
    qed
  qed
qed

text \<open>
  C2. The product \<^verbatim>\<open>size_of_os_image * 512\<close> wraps around at \<open>2 ^ 32\<close>. A blob of 512
  bytes whose descriptor declares 0x800000 pages has a length other than
  \<open>0x800000 * 512 + 512\<close>, and yet \<^verbatim>\<open>write_stitch_image\<close> returns 0 for it and changes
  the device: the table is written with the slot replaced (its size is 1) and the
  count set to 1, and an empty payload is written.
\<close>

theorem write_stitch_image_accepts_wrapped_length:
  "st_blob wrapped_image = [] \<and>
   unat (size_of_os_image (st_osii wrapped_image)) = 8388608 \<and>
   unat (512 :: u32) \<noteq> unat (size_of_os_image (st_osii wrapped_image)) * 512 + 512 \<and>
   fst (write_stitch_image (Some wrapped_image) 512 0 sample_world) = Inr 0 \<and>
   mmc_log (snd (write_stitch_image (Some wrapped_image) 512 0 sample_world)) =
     [Req_write_OSIP
        (sample_OSIP\<lparr>num_images := 1,
           desc := (desc sample_OSIP)
             [0 := zero_OSII\<lparr>logical_start_block := 100, size_of_os_image := 1\<rparr>]\<rparr>) True,
      Req_write_blob 200 [] True] \<and>
   mmc_osip (snd (write_stitch_image (Some wrapped_image) 512 0 sample_world)) \<noteq>
     mmc_osip sample_world"
  by (simp add: run_defs wrapped_image_def Let_def upt_7)

subsection \<open>A table that cannot be written\<close>

text \<open>
  C3. \<^verbatim>\<open>write_stitch_image\<close> does not look at what \<^verbatim>\<open>write_OSIP\<close> returns. In
  \<open>failing_world\<close> the \<^verbatim>\<open>write\<close> of the table in \<^verbatim>\<open>write_OSIP\<close> fails: the table of the
  device stays as it was, and the call goes on, opens the device, writes the payload
  of the image at the offset of the slot and returns 0.
\<close>

theorem write_stitch_image_after_failed_write_OSIP:
  "fst (write_stitch_image (Some sample_image) 51712 2 failing_world) = Inr 0 \<and>
   mmc_log (snd (write_stitch_image (Some sample_image) 51712 2 failing_world)) =
     [Req_write_OSIP
        (sample_OSIP\<lparr>num_images := 1,
           desc := (desc sample_OSIP)
             [2 := zero_OSII\<lparr>logical_start_block := 300, size_of_os_image := 25601\<rparr>]\<rparr>) False,
      Req_write_blob 600 (replicate 51200 0) True] \<and>
   mmc_osip (snd (write_stitch_image (Some sample_image) 51712 2 failing_world)) = sample_OSIP"
  by (simp add: run_defs failing_world_def sample_image_def Let_def upt_7)

section \<open>Properties of droidboot.c\<close>

subsection \<open>The countdown and its cancellation\<close>

lemma disable_autoboot_flag [simp]: "autoboot_enabled (disable_autoboot w) = 0"
  by (simp add: disable_autoboot_def dprintf_def)

lemma others_cancels: "cancels i \<Longrightarrow> autoboot_enabled (others cancels i w) = 0"
  by (simp add: others_def)

lemma autoboot_loop_cancelled:
  assumes "\<exists>j. i \<le> j \<and> j < i + sleep_time \<and> cancels j"
  shows "fst (autoboot_loop cancels i sleep_time w) = Returned"
  using assms
proof (induction sleep_time arbitrary: i w)
  case 0
  then have False by auto
  then show ?case ..
next
  case (Suc n)
  let ?w1 = "dprintf ALWAYS (''Automatic boot in %d seconds.'' @ nl) w"
  let ?w2 = "others cancels i ?w1"
  show ?case
  proof (cases "autoboot_enabled ?w2 = 0")
    case True
    then show ?thesis by (simp add: Let_def)
  next
    case False
    then have "\<not> cancels i" using others_cancels [of cancels i ?w1] by auto
    with Suc.prems obtain j where "Suc i \<le> j" "j < Suc i + n" "cancels j"
      by (metis Suc_leI add_Suc_right add_Suc le_neq_implies_less)
    then have "fst (autoboot_loop cancels (Suc i) n ?w2) = Returned"
      using Suc.IH by blast
    with False show ?thesis by (simp add: Let_def)
  qed
qed

text \<open>
  Without a cancellation before any of its reads, and with the flag set at the start,
  the thread does call \<^verbatim>\<open>start_default_kernel\<close>.
\<close>

lemma autoboot_loop_fires:
  assumes "\<forall>j. i \<le> j \<and> j < i + sleep_time \<longrightarrow> \<not> cancels j" and "autoboot_enabled w \<noteq> 0"
  shows "\<exists>e. fst (autoboot_loop cancels i sleep_time w) = Started_kernel e"
  using assms
proof (induction sleep_time arbitrary: i w)
  case 0
  then show ?case by (simp split: prod.splits)
next
  case (Suc n)
  let ?w1 = "dprintf ALWAYS (''Automatic boot in %d seconds.'' @ nl) w"
  have nc: "\<not> cancels i" using Suc.prems(1) by simp
  then have w2: "others cancels i ?w1 = ?w1" by (simp add: others_def)
  have en: "autoboot_enabled ?w1 \<noteq> 0" using Suc.prems(2) by (simp add: dprintf_def)
  have "\<forall>j. Suc i \<le> j \<and> j < Suc i + n \<longrightarrow> \<not> cancels j" using Suc.prems(1) by simp
  from Suc.IH [OF this en] show ?case using w2 en by (simp add: Let_def)
qed

lemma autoboot_thread_fires:
  assumes "\<forall>j. j \<le> sleep_time \<longrightarrow> \<not> cancels j" and "autoboot_enabled w \<noteq> 0"
  shows "\<exists>e. fst (autoboot_thread cancels sleep_time w) = Started_kernel e"
proof -
  have o: "others cancels 0 w = w" using assms(1) by (simp add: others_def)
  have "\<forall>j. 1 \<le> j \<and> j < 1 + sleep_time \<longrightarrow> \<not> cancels j" using assms(1) by simp
  from autoboot_loop_fires [OF this assms(2)] show ?thesis
    using o assms(2) by (simp add: autoboot_thread_def Let_def)
qed

text \<open>
  C7. The thread reads the flag on entry and after each of the \<open>sleep_time\<close> sleeps of
  one second, the last of them before the counter reaches zero. When another thread
  has called \<^verbatim>\<open>disable_autoboot\<close> before one of these reads, \<^verbatim>\<open>autoboot_thread\<close> ends at
  a \<^verbatim>\<open>return NULL\<close> that comes before the call of \<^verbatim>\<open>start_default_kernel\<close>: the default
  kernel is never started. This holds for every countdown, of zero seconds too. The
  witness is a countdown of 5 seconds cancelled before the read number 3.
\<close>

theorem autoboot_thread_cancelled:
  assumes "\<exists>j. j \<le> sleep_time \<and> cancels j"
  shows "fst (autoboot_thread cancels sleep_time w) = Returned"
proof (cases "autoboot_enabled (others cancels 0 w) = 0")
  case True
  then show ?thesis by (simp add: autoboot_thread_def Let_def)
next
  case False
  then have "\<not> cancels 0" using others_cancels [of cancels 0 w] by auto
  with assms obtain j where "1 \<le> j" "j < 1 + sleep_time" "cancels j"
    by (metis One_nat_def Suc_leI le_imp_less_Suc not_gr_zero plus_1_eq_Suc)
  then have "fst (autoboot_loop cancels 1 sleep_time (others cancels 0 w)) = Returned"
    using autoboot_loop_cancelled by blast
  with False show ?thesis by (simp add: autoboot_thread_def Let_def)
qed

theorem autoboot_thread_cancelled_witness:
  "(\<exists>j. j \<le> (5::nat) \<and> (\<lambda>i. i = 3) j) \<and>
   fst (autoboot_thread (\<lambda>i. i = 3) 5 blank_world) = Returned"
proof -
  have "\<exists>j. j \<le> (5::nat) \<and> (\<lambda>i. i = 3) j" by simp
  then show ?thesis
    using autoboot_thread_cancelled [of 5 "\<lambda>i. i = 3" blank_world] by simp
qed

subsection \<open>The events that cancel\<close>

lemma scan_fds_append:
  "scan_fds (pre @ post) w =
     (case scan_fds pre w of (True, w') \<Rightarrow> (True, w') | (False, w') \<Rightarrow> scan_fds post w')"
proof (induction pre w rule: scan_fds.induct)
  case (4 event fds w)
  then show ?case by (simp add: Let_def split: prod.splits bool.splits)
qed simp_all

text \<open>
  C9. Let \<^verbatim>\<open>select\<close> return, let the descriptors before one descriptor (of those up to
  \<open>max_fd\<close>) not end the loop, and let an event be read from that descriptor. A key
  event with the code \<^verbatim>\<open>KEY_DOT\<close> is ignored: the loop goes on with the descriptors
  after it and with the next return of \<^verbatim>\<open>select\<close>. Any other key event, and any
  relative or absolute event, calls \<^verbatim>\<open>disable_autoboot\<close> and leaves the loop at once.
  An event of any other type is ignored as the first is.
\<close>

theorem select_loop_event:
  assumes "fst (scan_fds pre (dprintf SPEW (''select returns %d (errno=%d)'' @ nl) w)) = False"
    and "int (length pre) \<le> max_fd"
  shows "select_loop ((pre @ Event event # post) # rounds) max_fd w =
     (let w1 = dprintf SPEW (''read from fd=%d. Event type: %x, code: %x, value: %x'' @ nl)
                 (snd (scan_fds pre (dprintf SPEW (''select returns %d (errno=%d)'' @ nl) w)));
          continue = (case scan_fds (take (nat max_fd - length pre) post) w1 of
                        (True, w2) \<Rightarrow> (True, w2)
                      | (False, w2) \<Rightarrow> select_loop rounds max_fd w2)
      in if ev_type event = EV_KEY \<and> ev_code event = KEY_DOT then continue
         else if ev_type event = EV_KEY \<or> ev_type event = EV_REL \<or> ev_type event = EV_ABS
         then (True, disable_autoboot w1)
         else continue)"
proof -
  let ?w0 = "dprintf SPEW (''select returns %d (errno=%d)'' @ nl) w"
  obtain w' where pre: "scan_fds pre ?w0 = (False, w')"
    using assms(1) by (cases "scan_fds pre ?w0") auto
  have len: "nat (max_fd + 1) - length pre = Suc (nat max_fd - length pre)"
    using assms(2) by linarith
  have tk: "take (nat (max_fd + 1)) (pre @ Event event # post) =
            pre @ Event event # take (nat max_fd - length pre) post"
    using assms(2) len by simp
  show ?thesis
    unfolding select_loop.simps Let_def tk scan_fds_append pre
    by (auto simp: handle_event_def Let_def EV_KEY_def EV_REL_def EV_ABS_def
             split: prod.splits bool.splits)
qed

theorem select_loop_event_witness:
  "fst (scan_fds [Not_set] (dprintf SPEW (''select returns %d (errno=%d)'' @ nl) blank_world)) = False \<and>
   int (length [Not_set]) \<le> 3 \<and>
   fst (select_loop [[Not_set, Event (key_event 30)]] 3 blank_world) = True \<and>
   autoboot_enabled (snd (select_loop [[Not_set, Event (key_event 30)]] 3 blank_world)) = 0 \<and>
   fst (select_loop [[Not_set, Event (key_event KEY_DOT)]] 3 blank_world) = False \<and>
   autoboot_enabled (snd (select_loop [[Not_set, Event (key_event KEY_DOT)]] 3 blank_world)) = 1 \<and>
   fst (select_loop [[Not_set, Event sync_event]] 3 blank_world) = False \<and>
   autoboot_enabled (snd (select_loop [[Not_set, Event sync_event]] 3 blank_world)) = 1"
proof -
  have pre: "fst (scan_fds [Not_set]
               (dprintf SPEW (''select returns %d (errno=%d)'' @ nl) blank_world)) = False"
    by simp
  have len: "int (length [Not_set]) \<le> 3" by simp
  note ev = select_loop_event [OF pre len, where post = "[]" and rounds = "[]"]
  show ?thesis
    using ev [of "key_event 30"] ev [of "key_event KEY_DOT"] ev [of sync_event]
    by (simp add: key_event_def sync_event_def EV_KEY_def EV_REL_def EV_ABS_def KEY_DOT_def
          Let_def dprintf_def blank_world_def)
qed

subsection \<open>Failures while the input devices are opened\<close>

lemma read_input_dir_stat_fails:
  assumes "e \<in> set entries" "d_name e \<noteq> ''.''" "d_name e \<noteq> ''..''" "d_stat e = Stat_fails"
  shows "fst (read_input_dir entries acc w) = Inl Died"
  using assms
proof (induction entries acc w rule: read_input_dir.induct)
  case (1 acc w)
  then show ?case by simp
next
  case (2 x es acc w)
  then show ?case
    by (auto split: stat_result.splits prod.splits)
qed

text \<open>
  C10. In the enumeration of \<^verbatim>\<open>/dev/input\<close> a failing \<^verbatim>\<open>stat\<close> on any entry other
  than \<^verbatim>\<open>.\<close> and \<^verbatim>\<open>..\<close> (the only entries on which \<^verbatim>\<open>stat\<close> is not called) ends in
  \<^verbatim>\<open>die()\<close>: the enumeration, and with it the thread and the process, end there. A
  character device whose \<^verbatim>\<open>open\<close> fails only adds a line to the log: the enumeration
  goes on with the next entry, with the set of descriptors and \<open>max_fd\<close> as they were.
\<close>

theorem enumeration_failures:
  "(e \<in> set entries \<and> d_name e \<noteq> ''.'' \<and> d_name e \<noteq> ''..'' \<and> d_stat e = Stat_fails \<longrightarrow>
      fst (read_input_dir entries acc w) = Inl Died \<and>
      fst (input_listener_thread \<lparr>inputdir = Some entries, selects = rounds\<rparr> w) = Ended Died) \<and>
   (d_name e \<noteq> ''.'' \<and> d_name e \<noteq> ''..'' \<and> d_stat e = Stat_mode True \<and> d_open e < 0 \<longrightarrow>
      read_input_dir (e # es) acc w =
        read_input_dir es acc (dprintf INFO (''Unable to open %s. fd=%d, errno=%d'' @ nl) w))"
proof (intro conjI impI)
  assume a: "e \<in> set entries \<and> d_name e \<noteq> ''.'' \<and> d_name e \<noteq> ''..'' \<and> d_stat e = Stat_fails"
  then show "fst (read_input_dir entries acc w) = Inl Died"
    using read_input_dir_stat_fails by blast
  let ?w0 = "dprintf SPEW (''begin input listener thread'' @ nl) w"
  have "fst (read_input_dir entries ({}, - 1) ?w0) = Inl Died"
    using a read_input_dir_stat_fails by blast
  then show "fst (input_listener_thread \<lparr>inputdir = Some entries, selects = rounds\<rparr> w) = Ended Died"
    by (auto simp: input_listener_thread_def Let_def split: prod.splits sum.splits)
next
  assume "d_name e \<noteq> ''.'' \<and> d_name e \<noteq> ''..'' \<and> d_stat e = Stat_mode True \<and> d_open e < 0"
  then show "read_input_dir (e # es) acc w =
        read_input_dir es acc (dprintf INFO (''Unable to open %s. fd=%d, errno=%d'' @ nl) w)"
    by (cases acc) (simp add: open_event_node_def)
qed

theorem enumeration_failures_witness:
  "lost_entry \<in> set [dot_entry, busy_entry, lost_entry] \<and>
   d_stat lost_entry = Stat_fails \<and>
   fst (input_listener_thread
          \<lparr>inputdir = Some [dot_entry, busy_entry, lost_entry], selects = []\<rparr> blank_world) =
     Ended Died \<and>
   d_stat busy_entry = Stat_mode True \<and> d_open busy_entry < 0 \<and>
   read_input_dir [busy_entry] ({}, - 1) blank_world =
     (Inr ({}, - 1),
      dprintf INFO (''Unable to open %s. fd=%d, errno=%d'' @ nl) blank_world)"
  using enumeration_failures [of lost_entry "[dot_entry, busy_entry, lost_entry]" "({}, - 1)"
          blank_world "[]" "[]"]
    enumeration_failures [of busy_entry "[]" "({}, - 1)" blank_world "[]" "[]"]
  by (simp add: lost_entry_def busy_entry_def dot_entry_def)

subsection \<open>The flag is cleared once\<close>




lemma flag_view_updates [simp]:
  "flag_view (w\<lparr>mmc_log := l\<rparr>) = flag_view w"
  "flag_view (w\<lparr>mmc_osip := t\<rparr>) = flag_view w"
  "flag_view (w\<lparr>faults := fs\<rparr>) = flag_view w"
  by (simp_all add: flag_view_def disabled_lines_def)

























end
